theory Spec2Isabelle
  imports Main "HOL-Library.Word" "HOL-Library.AList" "HOL-Library.List_Lexorder"
begin

section \<open>Data model of the autocomplete trie (trie.go)\<close>

text \<open>
  A Go string is modelled by the sequence of its code points (the runes that
  \<^verbatim>\<open>range\<close> and \<^verbatim>\<open>[]rune(s)\<close> yield); strings are taken to be valid UTF-8, so
  \<^verbatim>\<open>len(s) == 0\<close> is emptiness of the sequence, the test
  \<^verbatim>\<open>index == len(entry)-len(string(character))\<close> marks the last rune, and the
  byte-wise order \<^verbatim>\<open><\<close> on strings is the lexicographic order on code points.
\<close>

type_synonym rune = nat
type_synonym gostring = "rune list"
type_synonym uint8 = "8 word"

text \<open>
  The two library calls the package makes on text are parameters of the model:
  \<^verbatim>\<open>transform.String(transform.Chain(norm.NFD, runes.Remove(runes.In(unicode.Mn)), norm.NFC), s)\<close>
  (\<open>None\<close> stands for \<^verbatim>\<open>err != nil\<close>) and \<^verbatim>\<open>strings.ToLower\<close>.
\<close>

record textlib =
  transform_String :: "gostring \<Rightarrow> gostring option"
  ToLower :: "gostring \<Rightarrow> gostring"

text \<open>
  \<^verbatim>\<open>type node struct { children map[rune]*node; word string; meta interface{} }\<close>.
  Every node is owned by its parent, so the pointer tree is a tree value; the child map
  is an association list with distinct keys, whose order fixes one of the iteration
  orders Go may choose. \<open>None\<close> is the \<^verbatim>\<open>nil\<close> interface value.
\<close>

datatype 'm node = Node (children: "(rune \<times> 'm node) list") (word: gostring) (meta: "'m option")

datatype score = Score (levenshtein: uint8) (fuzzy: bool)

datatype 'm matchScore = MatchScore (score_of: score) (meta_of: "'m option")

datatype 'm Match = Match (Word: gostring) (Meta: "'m option")

record 'm trie =
  root :: "'m node"
  fuzzy :: bool
  normalised :: bool
  caseSensitive :: bool
  levenshteinScheme :: "uint8 \<rightharpoonup> uint8"
  levenshteinIntervals :: "uint8 list"
  originalDict :: "gostring \<rightharpoonup> gostring list"

text \<open>
  The two run-time panics of the package: the explicit one of \<^verbatim>\<open>CustomLevenshtein\<close>
  and the slice expression \<^verbatim>\<open>hits[:limit]\<close> of \<^verbatim>\<open>Search\<close> with a negative limit.
\<close>

datatype error = InvalidScheme | SliceBounds

section \<open>Configuration\<close>

definition shortStringLevenshteinLimit :: uint8 where "shortStringLevenshteinLimit = 0"
definition mediumStringLevenshteinLimit :: uint8 where "mediumStringLevenshteinLimit = 1"
definition longStringLevenshteinLimit :: uint8 where "longStringLevenshteinLimit = 2"
definition shortStringThreshold :: uint8 where "shortStringThreshold = 0"
definition mediumStringThreshold :: uint8 where "mediumStringThreshold = 3"
definition longStringThreshold :: uint8 where "longStringThreshold = 5"

definition WithFuzzy :: "'m trie \<Rightarrow> 'm trie" where
  "WithFuzzy t = t\<lparr>fuzzy := True\<rparr>"

definition WithoutFuzzy :: "'m trie \<Rightarrow> 'm trie" where
  "WithoutFuzzy t = t\<lparr>fuzzy := False\<rparr>"

definition WithNormalisation :: "'m trie \<Rightarrow> 'm trie" where
  "WithNormalisation t = t\<lparr>normalised := True\<rparr>"



definition CaseInsensitive :: "'m trie \<Rightarrow> 'm trie" where
  "CaseInsensitive t = t\<lparr>caseSensitive := False\<rparr>"

definition WithoutLevenshtein :: "'m trie \<Rightarrow> 'm trie" where
  "WithoutLevenshtein t = t\<lparr>levenshteinScheme := [0 \<mapsto> 0], levenshteinIntervals := [0]\<rparr>"

definition DefaultLevenshtein :: "'m trie \<Rightarrow> 'm trie" where
  "DefaultLevenshtein t = t\<lparr>
     levenshteinScheme := [shortStringThreshold \<mapsto> shortStringLevenshteinLimit,
                           mediumStringThreshold \<mapsto> mediumStringLevenshteinLimit,
                           longStringThreshold \<mapsto> longStringLevenshteinLimit],
     levenshteinIntervals := [longStringThreshold, mediumStringThreshold, longStringThreshold]\<rparr>"

text \<open>
  \<^verbatim>\<open>sort.Slice(xs, less)\<close>: an insertion sort by the comparator. Both uses in the
  package sort pairwise distinct keys by a strict linear order, for which every
  sorting algorithm returns the same slice.
\<close>

fun insertBy :: "('a \<Rightarrow> 'a \<Rightarrow> bool) \<Rightarrow> 'a \<Rightarrow> 'a list \<Rightarrow> 'a list" where
  "insertBy lt x [] = [x]"
| "insertBy lt x (y # ys) = (if lt y x then y # insertBy lt x ys else x # y # ys)"

definition sortSlice :: "('a \<Rightarrow> 'a \<Rightarrow> bool) \<Rightarrow> 'a list \<Rightarrow> 'a list" where
  "sortSlice lt xs = foldr (insertBy lt) xs []"

text \<open>The keys of a \<^verbatim>\<open>map[uint8]uint8\<close>, as \<^verbatim>\<open>for key := range scheme\<close> visits them.\<close>

definition schemeKeys :: "(uint8 \<rightharpoonup> uint8) \<Rightarrow> uint8 list" where
  "schemeKeys scheme = filter (\<lambda>k. scheme k \<noteq> None) (map of_nat [0..<256])"

definition CustomLevenshtein :: "(uint8 \<rightharpoonup> uint8) \<Rightarrow> 'm trie \<Rightarrow> error + 'm trie" where
  "CustomLevenshtein scheme t =
     (if scheme 0 = None then Inl InvalidScheme
      else Inr (t\<lparr>levenshteinIntervals := sortSlice (\<lambda>a b. a > b) (schemeKeys scheme),
                  levenshteinScheme := scheme\<rparr>))"

definition New :: "'m trie" where
  "New = CaseInsensitive (DefaultLevenshtein (WithNormalisation (WithFuzzy
           \<lparr>root = Node [] [] None, fuzzy = False, normalised = False, caseSensitive = False,
            levenshteinScheme = Map.empty, levenshteinIntervals = [],
            originalDict = Map.empty\<rparr>)))"

section \<open>Insertion, deletion and exact lookup\<close>

text \<open>\<^verbatim>\<open>t.originalDict[k] = append(t.originalDict[k], entry)\<close>\<close>

definition appendOriginal ::
  "(gostring \<rightharpoonup> gostring list) \<Rightarrow> gostring \<Rightarrow> gostring \<Rightarrow> (gostring \<rightharpoonup> gostring list)" where
  "appendOriginal d k entry = d(k \<mapsto> (case d k of None \<Rightarrow> [] | Some os \<Rightarrow> os) @ [entry])"

text \<open>
  The loop of \<^verbatim>\<open>insertInternal\<close> over the runes still to be walked, followed by its
  final test. A node that is missing is created, and it alone receives
  \<^verbatim>\<open>word\<close> and \<^verbatim>\<open>meta\<close> when it ends the entry; a node that exists is entered as
  it is. After the loop the metadata is overwritten only where the node's word is the
  entry.
\<close>

fun insertWalk :: "'m node \<Rightarrow> gostring \<Rightarrow> gostring \<Rightarrow> 'm option \<Rightarrow> 'm node" where
  "insertWalk currentNode [] entry m =
     (if word currentNode = entry
      then Node (children currentNode) (word currentNode) m
      else currentNode)"
| "insertWalk currentNode (character # rest) entry m =
     (case map_of (children currentNode) character of
        Some child \<Rightarrow>
          Node (AList.update character (insertWalk child rest entry m) (children currentNode))
               (word currentNode) (meta currentNode)
      | None \<Rightarrow>
          (let child = (if rest = [] then Node [] entry m else Node [] [] None)
           in Node (AList.update character (insertWalk child rest entry m) (children currentNode))
                   (word currentNode) (meta currentNode)))"

definition insertInternal :: "textlib \<Rightarrow> 'm trie \<Rightarrow> gostring \<Rightarrow> 'm option \<Rightarrow> 'm trie" where
  "insertInternal L t entry m =
     (if entry = [] then t
      else if normalised t \<and> caseSensitive t then
        (case transform_String L entry of
           None \<Rightarrow> t
         | Some normal \<Rightarrow>
             t\<lparr>originalDict := appendOriginal (originalDict t) normal entry,
               root := insertWalk (root t) normal normal m\<rparr>)
      else if normalised t \<and> \<not> caseSensitive t then
        (case transform_String L entry of
           None \<Rightarrow> t
         | Some normal0 \<Rightarrow>
             (let normal = ToLower L normal0
              in t\<lparr>originalDict := appendOriginal (originalDict t) normal entry,
                    root := insertWalk (root t) normal normal m\<rparr>))
      else if \<not> normalised t \<and> \<not> caseSensitive t then
        (let lower = ToLower L entry
         in t\<lparr>originalDict := appendOriginal (originalDict t) lower entry,
               root := insertWalk (root t) lower lower m\<rparr>)
      else t\<lparr>root := insertWalk (root t) entry entry m\<rparr>)"

definition Insert :: "textlib \<Rightarrow> 'm trie \<Rightarrow> gostring list \<Rightarrow> 'm trie" where
  "Insert L t entries = fold (\<lambda>entry t'. insertInternal L t' entry None) entries t"

definition InsertWithMeta :: "textlib \<Rightarrow> 'm trie \<Rightarrow> gostring \<Rightarrow> 'm option \<Rightarrow> 'm trie" where
  "InsertWithMeta L t w m = insertInternal L t w m"


text \<open>
  The switch at the head of \<^verbatim>\<open>Delete\<close> and of \<^verbatim>\<open>FindMeta\<close> (the same text in
  both): the canonical key, or the word as given where the transform fails.
\<close>

definition lookupKey :: "textlib \<Rightarrow> 'm trie \<Rightarrow> gostring \<Rightarrow> gostring" where
  "lookupKey L t w =
     (if normalised t \<and> caseSensitive t then
        (case transform_String L w of Some normal \<Rightarrow> normal | None \<Rightarrow> w)
      else if normalised t \<and> \<not> caseSensitive t then
        (case transform_String L w of Some normal \<Rightarrow> ToLower L normal | None \<Rightarrow> w)
      else if \<not> normalised t \<and> \<not> caseSensitive t then ToLower L w
      else w)"

text \<open>
  The walk of \<^verbatim>\<open>Delete\<close> to the end of the key, the clearing of the end node and
  the pruning loop on the way back. \<open>None\<close>: a segment is missing and \<^verbatim>\<open>Delete\<close>
  returns. The flag says that the pruning loop has not reached its \<^verbatim>\<open>break\<close>.
\<close>

fun deleteWalk :: "'m node \<Rightarrow> gostring \<Rightarrow> ('m node \<times> bool) option" where
  "deleteWalk current [] = Some (Node (children current) [] None, True)"
| "deleteWalk current (r # rs) =
     (case map_of (children current) r of
        None \<Rightarrow> None
      | Some next \<Rightarrow>
          (case deleteWalk next rs of
             None \<Rightarrow> None
           | Some (child, pruning) \<Rightarrow>
               if pruning \<and> children child = [] \<and> word child = []
               then Some (Node (AList.delete r (children current)) (word current) (meta current), True)
               else Some (Node (AList.update r child (children current)) (word current) (meta current), False)))"

definition Delete :: "textlib \<Rightarrow> 'm trie \<Rightarrow> gostring \<Rightarrow> 'm trie" where
  "Delete L t w0 =
     (let w = lookupKey L t w0;
          t' = t\<lparr>originalDict := (originalDict t)(w := None)\<rparr>
      in case deleteWalk (root t') w of
           None \<Rightarrow> t'
         | Some (r, pruning) \<Rightarrow> t'\<lparr>root := r\<rparr>)"

fun findWalk :: "'m node \<Rightarrow> gostring \<Rightarrow> 'm node option" where
  "findWalk current [] = Some current"
| "findWalk current (r # rs) =
     (case map_of (children current) r of
        None \<Rightarrow> None
      | Some next \<Rightarrow> findWalk next rs)"

definition FindMeta :: "textlib \<Rightarrow> 'm trie \<Rightarrow> gostring \<Rightarrow> 'm option \<times> bool" where
  "FindMeta L t w0 =
     (let w = lookupKey L t w0
      in case findWalk (root t) w of
           None \<Rightarrow> (None, False)
         | Some current \<Rightarrow> if word current = w then (meta current, True) else (None, False))"


section \<open>The query engine\<close>

text \<open>\<^verbatim>\<open>utf8.RuneError\<close>, which \<^verbatim>\<open>utf8.DecodeRuneInString("")\<close> returns with size 0.\<close>

definition RuneError :: rune where
  "RuneError = 65533"

text \<open>
  The test that guards every write to the collection:
  \<^verbatim>\<open>!ok || distance < previousScore.levenshtein ||
  (distance == previousScore.levenshtein && previousScore.fuzzy && !fuzzyUsed)\<close>.
\<close>

definition improves :: "score option \<Rightarrow> uint8 \<Rightarrow> bool \<Rightarrow> bool" where
  "improves prev distance fuzzyUsed =
     (case prev of
        None \<Rightarrow> True
      | Some previousScore \<Rightarrow>
          distance < levenshtein previousScore \<or>
          (distance = levenshtein previousScore \<and> score.fuzzy previousScore \<and> \<not> fuzzyUsed))"

text \<open>
  A collection (\<^verbatim>\<open>map[string]score\<close>, \<^verbatim>\<open>map[string]matchScore\<close>) is an association
  list with distinct keys; \<^verbatim>\<open>collection[k] = v\<close> is \<open>AList.update\<close>.
\<close>

definition recordScore ::
  "(gostring \<times> score) list \<Rightarrow> gostring \<Rightarrow> uint8 \<Rightarrow> bool \<Rightarrow> (gostring \<times> score) list" where
  "recordScore collection w distance fuzzyUsed =
     (if improves (map_of collection w) distance fuzzyUsed
      then AList.update w (Score distance fuzzyUsed) collection
      else collection)"

definition recordMatch ::
  "(gostring \<times> 'm matchScore) list \<Rightarrow> gostring \<Rightarrow> uint8 \<Rightarrow> bool \<Rightarrow> 'm option
     \<Rightarrow> (gostring \<times> 'm matchScore) list" where
  "recordMatch collection w distance fuzzyUsed m =
     (if improves (map_option score_of (map_of collection w)) distance fuzzyUsed
      then AList.update w (MatchScore (Score distance fuzzyUsed) m) collection
      else collection)"

lemma child_size: "(c, nd) \<in> set (children n) \<Longrightarrow> size nd < size n"
proof (cases n)
  case (Node cs w m)
  assume "(c, nd) \<in> set (children n)"
  with Node have "(c, nd) \<in> set cs" by simp
  then have "size_prod (\<lambda>_. 0) size (c, nd) \<le> size_list (size_prod (\<lambda>_. 0) size) cs"
    by (rule size_list_estimation') simp
  with Node show ?thesis by simp
qed

lemma map_of_child_size: "map_of (children n) c = Some nd \<Longrightarrow> size nd < size n"
  by (rule child_size[of c]) (erule map_of_SomeD)

lemma unat_succ_below: "(d::uint8) < md \<Longrightarrow> unat (d + 1) = Suc (unat d)"
  by unat_arith

lemma unat_below: "(d::uint8) < md \<Longrightarrow> unat d < unat md"
  by (simp add: word_less_nat_alt)

lemma budget_step:
  "(d::uint8) < md \<Longrightarrow> 2 * (unat md - unat (d + 1)) + 2 = 2 * (unat md - unat d)"
  using unat_succ_below[of d md] unat_below[of d md] by simp

function collectAllDescendentWords ::
  "'m node \<Rightarrow> (gostring \<times> score) list \<Rightarrow> uint8 \<Rightarrow> bool \<Rightarrow> (gostring \<times> score) list" where
  "collectAllDescendentWords n collection distance fuzzyUsed =
     fold (\<lambda>(character, node) coll.
             collectAllDescendentWords node
               (if word node \<noteq> [] then recordScore coll (word node) distance fuzzyUsed else coll)
               distance fuzzyUsed)
          (children n) collection"
  by pat_completeness auto

lemma collectAllDescendentWords_total:
  "All (collectAllDescendentWords_dom :: 'm node \<times> _ \<Rightarrow> bool)"
  by (relation "measure (\<lambda>(n, collection, distance, fuzzyUsed). size n)")
     (auto simp: child_size)

termination collectAllDescendentWords
  by (rule collectAllDescendentWords_total)

function collectAllDescendentWordsMeta ::
  "'m node \<Rightarrow> (gostring \<times> 'm matchScore) list \<Rightarrow> uint8 \<Rightarrow> bool
     \<Rightarrow> (gostring \<times> 'm matchScore) list" where
  "collectAllDescendentWordsMeta n collection distance fuzzyUsed =
     fold (\<lambda>(character, node) coll.
             collectAllDescendentWordsMeta node
               (if word node \<noteq> []
                then recordMatch coll (word node) distance fuzzyUsed (meta node)
                else coll)
               distance fuzzyUsed)
          (children n) collection"
  by pat_completeness auto

lemma collectAllDescendentWordsMeta_total:
  "All (collectAllDescendentWordsMeta_dom :: 'm node \<times> _ \<Rightarrow> bool)"
  by (relation "measure (\<lambda>(n, collection, distance, fuzzyUsed). size n)")
     (auto simp: child_size)

termination collectAllDescendentWordsMeta
  by (rule collectAllDescendentWordsMeta_total)

text \<open>
  \<^verbatim>\<open>collect\<close>. When the word is empty and the node carries no word, the source does
  not return after the sweep of the descendants: it goes on with
  \<^verbatim>\<open>character = utf8.RuneError\<close> and \<^verbatim>\<open>subword = ""\<close>. The wildcard is the rune 42
  (\<^verbatim>\<open>'*'\<close>). \<^verbatim>\<open>limit\<close> is passed on and never read.
\<close>

function collect ::
  "(gostring \<times> score) list \<Rightarrow> gostring \<Rightarrow> 'm node \<Rightarrow> uint8 \<Rightarrow> uint8 \<Rightarrow> int \<Rightarrow> bool \<Rightarrow> bool
     \<Rightarrow> (gostring \<times> score) list" where
  "collect collection w node distance maxDistance limit fuzzyAllowed fuzzyUsed =
     (if w = [] \<and> word node \<noteq> [] then
        collectAllDescendentWords node (recordScore collection (word node) distance fuzzyUsed)
          distance fuzzyUsed
      else
        (let c0 = (if w = [] then collectAllDescendentWords node collection distance fuzzyUsed
                   else collection);
             character = (case w of [] \<Rightarrow> RuneError | r # _ \<Rightarrow> r);
             subword = (case w of [] \<Rightarrow> [] | _ # rest \<Rightarrow> rest);
             c1 = (if character = 42
                   then collect c0 subword node distance maxDistance limit False fuzzyUsed
                   else c0);
             c2 = (case map_of (children node) character of
                     Some next \<Rightarrow> collect c1 subword next distance maxDistance limit False fuzzyUsed
                   | None \<Rightarrow> c1)
         in if distance < maxDistance then
              (let distance' = distance + 1;
                   c3 = fold (\<lambda>(character, next) c.
                          (let ca = collect c (character # subword) node distance' maxDistance limit False fuzzyUsed;
                               cb = collect ca (character # w) node distance' maxDistance limit False fuzzyUsed
                           in if fuzzyAllowed
                              then collect cb w next (distance' - 1) maxDistance limit True True
                              else cb))
                        (children node) c2
               in collect c3 subword node distance' maxDistance limit False False)
            else if distance = 0 then
              fold (\<lambda>(character, next) c.
                      if fuzzyAllowed
                      then collect c w next distance maxDistance limit True True
                      else c)
                   (children node) c2
            else c2))"
  by pat_completeness auto

text \<open>
  Every recursive call lowers \<open>length w + size node + 2 * (maxDistance - distance)\<close>:
  the wildcard and the exact step shorten the word, the fuzzy step enters a child, and
  substitution, insertion and deletion spend one unit of the budget, which pays for the
  rune that insertion adds to the word.
\<close>

lemma collect_total: "All (collect_dom :: _ \<times> _ \<times> 'm node \<times> _ \<Rightarrow> bool)"
proof (relation "measure (\<lambda>(collection, w, node, distance, maxDistance, limit, fuzzyAllowed, fuzzyUsed).
                     length w + size node + 2 * (unat maxDistance - unat distance))", goal_cases)
  case 1
  show ?case by simp
next
  case (2 collection w node distance maxDistance limit fuzzyAllowed fuzzyUsed x xa xb)
  have a: "xa = (case w of [] \<Rightarrow> RuneError | r # x \<Rightarrow> r)" by fact
  have b: "xb = (case w of [] \<Rightarrow> [] | x # rest \<Rightarrow> rest)" by fact
  have c: "xa = 42" by fact
  from a b c show ?case by (cases w) (simp_all add: RuneError_def)
next
  case (3 collection w node distance maxDistance limit fuzzyAllowed fuzzyUsed x xa xb xc x2)
  have b: "xb = (case w of [] \<Rightarrow> [] | x # rest \<Rightarrow> rest)" by fact
  have "map_of (children node) xa = Some x2" by fact
  from map_of_child_size[OF this] b show ?case by (cases w) simp_all
next
  case (4 collection w node distance maxDistance limit fuzzyAllowed fuzzyUsed x xa xb xc xd xe xf xg y xh)
  have b: "xb = (case w of [] \<Rightarrow> [] | x # rest \<Rightarrow> rest)" by fact
  have e: "xe = distance + 1" by fact
  have "distance < maxDistance" by fact
  from budget_step[OF this] b e show ?case by (cases w) simp_all
next
  case (5 collection w node distance maxDistance limit fuzzyAllowed fuzzyUsed x xa xb xc xd xe xf xg y xh xi)
  have e: "xe = distance + 1" by fact
  have "distance < maxDistance" by fact
  from budget_step[OF this] e show ?case by simp
next
  case (6 collection w node distance maxDistance limit fuzzyAllowed fuzzyUsed x xa xb xc xd xe xf xg y xh xi xj)
  have e: "xe = distance + 1" by fact
  have "xf \<in> set (children node)" by fact
  moreover have "(xg, y) = xf" by fact
  ultimately have "(xg, y) \<in> set (children node)" by simp
  then have "size y < size node" by (rule child_size)
  with e show ?case by simp
next
  case (7 collection w node distance maxDistance limit fuzzyAllowed fuzzyUsed x xa xb xc xd xe xf)
  have b: "xb = (case w of [] \<Rightarrow> [] | x # rest \<Rightarrow> rest)" by fact
  have e: "xe = distance + 1" by fact
  have "distance < maxDistance" by fact
  from budget_step[OF this] b e show ?case by (cases w) simp_all
next
  case (8 collection w node distance maxDistance limit fuzzyAllowed fuzzyUsed x xa xb xc xd xe xf y)
  have "xe \<in> set (children node)" by fact
  moreover have "(xf, y) = xe" by fact
  ultimately have "(xf, y) \<in> set (children node)" by simp
  then have "size y < size node" by (rule child_size)
  then show ?case by simp
qed

termination collect
  by (rule collect_total)

function collectMeta ::
  "(gostring \<times> 'm matchScore) list \<Rightarrow> gostring \<Rightarrow> 'm node \<Rightarrow> uint8 \<Rightarrow> uint8 \<Rightarrow> int \<Rightarrow> bool \<Rightarrow> bool
     \<Rightarrow> (gostring \<times> 'm matchScore) list" where
  "collectMeta collection w node distance maxDistance limit fuzzyAllowed fuzzyUsed =
     (if w = [] \<and> word node \<noteq> [] then
        collectAllDescendentWordsMeta node
          (recordMatch collection (word node) distance fuzzyUsed (meta node))
          distance fuzzyUsed
      else
        (let c0 = (if w = [] then collectAllDescendentWordsMeta node collection distance fuzzyUsed
                   else collection);
             character = (case w of [] \<Rightarrow> RuneError | r # _ \<Rightarrow> r);
             subword = (case w of [] \<Rightarrow> [] | _ # rest \<Rightarrow> rest);
             c1 = (if character = 42
                   then collectMeta c0 subword node distance maxDistance limit False fuzzyUsed
                   else c0);
             c2 = (case map_of (children node) character of
                     Some next \<Rightarrow> collectMeta c1 subword next distance maxDistance limit False fuzzyUsed
                   | None \<Rightarrow> c1)
         in if distance < maxDistance then
              (let distance' = distance + 1;
                   c3 = fold (\<lambda>(character, next) c.
                          (let ca = collectMeta c (character # subword) node distance' maxDistance limit False fuzzyUsed;
                               cb = collectMeta ca (character # w) node distance' maxDistance limit False fuzzyUsed
                           in if fuzzyAllowed
                              then collectMeta cb w next (distance' - 1) maxDistance limit True True
                              else cb))
                        (children node) c2
               in collectMeta c3 subword node distance' maxDistance limit False False)
            else if distance = 0 then
              fold (\<lambda>(character, next) c.
                      if fuzzyAllowed
                      then collectMeta c w next distance maxDistance limit True True
                      else c)
                   (children node) c2
            else c2))"
  by pat_completeness auto

lemma collectMeta_total: "All (collectMeta_dom :: _ \<times> _ \<times> 'm node \<times> _ \<Rightarrow> bool)"
proof (relation "measure (\<lambda>(collection, w, node, distance, maxDistance, limit, fuzzyAllowed, fuzzyUsed).
                     length w + size node + 2 * (unat maxDistance - unat distance))", goal_cases)
  case 1
  show ?case by simp
next
  case (2 collection w node distance maxDistance limit fuzzyAllowed fuzzyUsed x xa xb)
  have a: "xa = (case w of [] \<Rightarrow> RuneError | r # x \<Rightarrow> r)" by fact
  have b: "xb = (case w of [] \<Rightarrow> [] | x # rest \<Rightarrow> rest)" by fact
  have c: "xa = 42" by fact
  from a b c show ?case by (cases w) (simp_all add: RuneError_def)
next
  case (3 collection w node distance maxDistance limit fuzzyAllowed fuzzyUsed x xa xb xc x2)
  have b: "xb = (case w of [] \<Rightarrow> [] | x # rest \<Rightarrow> rest)" by fact
  have "map_of (children node) xa = Some x2" by fact
  from map_of_child_size[OF this] b show ?case by (cases w) simp_all
next
  case (4 collection w node distance maxDistance limit fuzzyAllowed fuzzyUsed x xa xb xc xd xe xf xg y xh)
  have b: "xb = (case w of [] \<Rightarrow> [] | x # rest \<Rightarrow> rest)" by fact
  have e: "xe = distance + 1" by fact
  have "distance < maxDistance" by fact
  from budget_step[OF this] b e show ?case by (cases w) simp_all
next
  case (5 collection w node distance maxDistance limit fuzzyAllowed fuzzyUsed x xa xb xc xd xe xf xg y xh xi)
  have e: "xe = distance + 1" by fact
  have "distance < maxDistance" by fact
  from budget_step[OF this] e show ?case by simp
next
  case (6 collection w node distance maxDistance limit fuzzyAllowed fuzzyUsed x xa xb xc xd xe xf xg y xh xi xj)
  have e: "xe = distance + 1" by fact
  have "xf \<in> set (children node)" by fact
  moreover have "(xg, y) = xf" by fact
  ultimately have "(xg, y) \<in> set (children node)" by simp
  then have "size y < size node" by (rule child_size)
  with e show ?case by simp
next
  case (7 collection w node distance maxDistance limit fuzzyAllowed fuzzyUsed x xa xb xc xd xe xf)
  have b: "xb = (case w of [] \<Rightarrow> [] | x # rest \<Rightarrow> rest)" by fact
  have e: "xe = distance + 1" by fact
  have "distance < maxDistance" by fact
  from budget_step[OF this] b e show ?case by (cases w) simp_all
next
  case (8 collection w node distance maxDistance limit fuzzyAllowed fuzzyUsed x xa xb xc xd xe xf y)
  have "xe \<in> set (children node)" by fact
  moreover have "(xf, y) = xe" by fact
  ultimately have "(xf, y) \<in> set (children node)" by simp
  then have "size y < size node" by (rule child_size)
  then show ?case by simp
qed

termination collectMeta
  by (rule collectMeta_total)

text \<open>
  \<^verbatim>\<open>maxDistance\<close>: the first interval that the number of code points reaches gives
  the budget \<^verbatim>\<open>t.levenshteinScheme[limit]\<close>, the zero value where the scheme has no
  such key; with no such interval the named result keeps its zero value.
\<close>

definition maxDistanceLoop :: "(uint8 \<rightharpoonup> uint8) \<Rightarrow> uint8 list \<Rightarrow> nat \<Rightarrow> uint8" where
  "maxDistanceLoop scheme intervals n =
     (case find (\<lambda>limit. n \<ge> unat limit) intervals of
        Some limit \<Rightarrow> (case scheme limit of Some v \<Rightarrow> v | None \<Rightarrow> 0)
      | None \<Rightarrow> 0)"

definition maxDistance :: "'m trie \<Rightarrow> gostring \<Rightarrow> uint8" where
  "maxDistance t search =
     maxDistanceLoop (levenshteinScheme t) (levenshteinIntervals t) (length search)"

text \<open>
  The comparator of both \<^verbatim>\<open>sort.Slice\<close> calls, on the scores of two hits and their
  words. A key that is missing reads as the zero score.
\<close>

definition scoreLess :: "score \<Rightarrow> gostring \<Rightarrow> score \<Rightarrow> gostring \<Rightarrow> bool" where
  "scoreLess si wi sj wj =
     (if levenshtein si \<noteq> levenshtein sj then levenshtein si < levenshtein sj
      else if score.fuzzy si \<and> \<not> score.fuzzy sj then False
      else if \<not> score.fuzzy si \<and> score.fuzzy sj then True
      else wi < wj)"

definition scoreAt :: "(gostring \<times> score) list \<Rightarrow> gostring \<Rightarrow> score" where
  "scoreAt collection k = (case map_of collection k of Some s \<Rightarrow> s | None \<Rightarrow> Score 0 False)"

definition matchScoreAt :: "(gostring \<times> 'm matchScore) list \<Rightarrow> gostring \<Rightarrow> score" where
  "matchScoreAt collection k =
     (case map_of collection k of Some s \<Rightarrow> score_of s | None \<Rightarrow> Score 0 False)"

text \<open>
  \<^verbatim>\<open>Search\<close>: the guard on the query as given, its canonical form, the budget, the
  traversal from the root, the sort of the keys of the collection, and the three ways
  out. The first, \<^verbatim>\<open>return hits[:limit]\<close>, is taken before the expansion to the
  originals, and its slice expression panics on a negative limit.
\<close>

definition Search :: "textlib \<Rightarrow> 'm trie \<Rightarrow> gostring \<Rightarrow> int \<Rightarrow> error + gostring list" where
  "Search L t search0 limit =
     (if search0 = [] then Inr []
      else
        (case (if normalised t then transform_String L search0 else Some search0) of
           None \<Rightarrow> Inr []
         | Some search1 \<Rightarrow>
             (let search = (if \<not> caseSensitive t then ToLower L search1 else search1);
                  maxDistance = maxDistance t search;
                  collection = collect [] search (root t) 0 maxDistance limit (fuzzy t) False;
                  hits = sortSlice (\<lambda>a b. scoreLess (scoreAt collection a) a (scoreAt collection b) b)
                           (map fst collection)
              in if int (length hits) \<ge> limit \<and> limit \<noteq> 0 then
                   (if limit < 0 then Inl SliceBounds else Inr (take (nat limit) hits))
                 else if \<not> normalised t \<and> caseSensitive t then Inr hits
                 else Inr (concat (map (\<lambda>hit. case originalDict t hit of
                                                None \<Rightarrow> [] | Some originals \<Rightarrow> originals) hits)))))"

definition SearchAll :: "textlib \<Rightarrow> 'm trie \<Rightarrow> gostring \<Rightarrow> error + gostring list" where
  "SearchAll L t search = Search L t search 0"

text \<open>
  \<^verbatim>\<open>SearchAllMeta\<close> has no limit; where a hit has no originals in the registry it
  keeps the hit itself.
\<close>

definition SearchAllMeta :: "textlib \<Rightarrow> 'm trie \<Rightarrow> gostring \<Rightarrow> 'm Match list" where
  "SearchAllMeta L t search0 =
     (if search0 = [] then []
      else
        (case (if normalised t then transform_String L search0 else Some search0) of
           None \<Rightarrow> []
         | Some search1 \<Rightarrow>
             (let search = (if \<not> caseSensitive t then ToLower L search1 else search1);
                  maxDistance = maxDistance t search;
                  collection = collectMeta [] search (root t) 0 maxDistance 0 (fuzzy t) False;
                  hits = sortSlice (\<lambda>a b. scoreLess (matchScoreAt collection (Word a)) (Word a)
                                              (matchScoreAt collection (Word b)) (Word b))
                           (map (\<lambda>(w, sc). Match w (meta_of sc)) collection)
              in if \<not> normalised t \<and> caseSensitive t then hits
                 else concat (map (\<lambda>hit.
                        (case originalDict t (Word hit) of
                           None \<Rightarrow> [hit]
                         | Some originals \<Rightarrow>
                             if originals = [] then [hit]
                             else map (\<lambda>orig. Match orig (Meta hit)) originals)) hits))))"

section \<open>A text library for plain strings\<close>

text \<open>
  An instance of the two library calls for strings made of ASCII code points and the
  combining diacritical marks U+0300 to U+036F (all of category Mn): the transform
  chain removes the marks and leaves ASCII as it is, and \<^verbatim>\<open>strings.ToLower\<close> maps
  \<^verbatim>\<open>A-Z\<close> to \<^verbatim>\<open>a-z\<close>.
\<close>

definition asciiLower :: "rune \<Rightarrow> rune" where
  "asciiLower r = (if 65 \<le> r \<and> r \<le> 90 then r + 32 else r)"

definition combiningMark :: "rune \<Rightarrow> bool" where
  "combiningMark r = (768 \<le> r \<and> r \<le> 879)"

definition plainText :: textlib where
  "plainText = \<lparr>transform_String = (\<lambda>s. Some (filter (\<lambda>r. \<not> combiningMark r) s)),
                ToLower = map asciiLower\<rparr>"

text \<open>The code points of a string literal.\<close>

definition str :: "string \<Rightarrow> gostring" where
  "str s = map of_char s"

text \<open>
  A text library whose transform reports an error on strings that hold the replacement
  character; it exercises the \<^verbatim>\<open>err != nil\<close> branches.
\<close>

definition rejectingText :: textlib where
  "rejectingText = \<lparr>transform_String = (\<lambda>s. if RuneError \<in> set s then None else Some s),
                    ToLower = map asciiLower\<rparr>"


section \<open>Histories and the shape of a trie\<close>














section \<open>Unfolding the traversal on concrete input\<close>

text \<open>
  The recursive equations rewrite under the binders of their own loops, so they are
  taken out of the simplifier. The loops get names, and each equation below unfolds one
  step of the traversal on a node and a word that are given.
\<close>

declare collect.simps [simp del] collectMeta.simps [simp del]
  collectAllDescendentWords.simps [simp del] collectAllDescendentWordsMeta.simps [simp del]

definition sweepLoop ::
  "(rune \<times> 'm node) list \<Rightarrow> (gostring \<times> score) list \<Rightarrow> uint8 \<Rightarrow> bool \<Rightarrow> (gostring \<times> score) list" where
  "sweepLoop cs collection distance fuzzyUsed =
     fold (\<lambda>(character, node) coll.
             collectAllDescendentWords node
               (if word node \<noteq> [] then recordScore coll (word node) distance fuzzyUsed else coll)
               distance fuzzyUsed)
          cs collection"

definition fuzzyStep ::
  "bool \<Rightarrow> (gostring \<times> score) list \<Rightarrow> gostring \<Rightarrow> 'm node \<Rightarrow> uint8 \<Rightarrow> uint8 \<Rightarrow> int
     \<Rightarrow> (gostring \<times> score) list" where
  "fuzzyStep fa cb w next d md lim = (if fa then collect cb w next d md lim True True else cb)"

definition editLoop ::
  "(rune \<times> 'm node) list \<Rightarrow> (gostring \<times> score) list \<Rightarrow> gostring \<Rightarrow> gostring \<Rightarrow> 'm node
     \<Rightarrow> uint8 \<Rightarrow> uint8 \<Rightarrow> int \<Rightarrow> bool \<Rightarrow> bool \<Rightarrow> (gostring \<times> score) list" where
  "editLoop cs c2 w subword node d' md lim fa fu =
     fold (\<lambda>(character, next) c.
            (let ca = collect c (character # subword) node d' md lim False fu;
                 cb = collect ca (character # w) node d' md lim False fu
             in if fa then collect cb w next (d' - 1) md lim True True else cb))
          cs c2"

definition fuzzyLoop ::
  "(rune \<times> 'm node) list \<Rightarrow> (gostring \<times> score) list \<Rightarrow> gostring \<Rightarrow> uint8 \<Rightarrow> uint8 \<Rightarrow> int
     \<Rightarrow> bool \<Rightarrow> (gostring \<times> score) list" where
  "fuzzyLoop cs c2 w d md lim fa =
     fold (\<lambda>(character, next) c. if fa then collect c w next d md lim True True else c) cs c2"

definition starStep ::
  "(gostring \<times> score) list \<Rightarrow> rune \<Rightarrow> gostring \<Rightarrow> 'm node \<Rightarrow> uint8 \<Rightarrow> uint8 \<Rightarrow> int \<Rightarrow> bool
     \<Rightarrow> (gostring \<times> score) list" where
  "starStep c0 character subword node d md lim fu =
     (if character = 42 then collect c0 subword node d md lim False fu else c0)"

definition exactStep ::
  "(gostring \<times> score) list \<Rightarrow> rune \<Rightarrow> gostring \<Rightarrow> 'm node \<Rightarrow> uint8 \<Rightarrow> uint8 \<Rightarrow> int \<Rightarrow> bool
     \<Rightarrow> (gostring \<times> score) list" where
  "exactStep c1 character subword node d md lim fu =
     (case map_of (children node) character of
        Some next \<Rightarrow> collect c1 subword next d md lim False fu
      | None \<Rightarrow> c1)"

definition budgetStep ::
  "(gostring \<times> score) list \<Rightarrow> gostring \<Rightarrow> gostring \<Rightarrow> 'm node \<Rightarrow> uint8 \<Rightarrow> uint8 \<Rightarrow> int
     \<Rightarrow> bool \<Rightarrow> bool \<Rightarrow> (gostring \<times> score) list" where
  "budgetStep c2 w subword node d md lim fa fu =
     (if d < md then
        collect (editLoop (children node) c2 w subword node (d + 1) md lim fa fu)
          subword node (d + 1) md lim False False
      else if d = 0 then fuzzyLoop (children node) c2 w d md lim fa
      else c2)"








lemma sweepLoop_Nil: "sweepLoop [] c d fu = c"
  by (simp add: sweepLoop_def)

lemma sweepLoop_Cons:
  "sweepLoop ((ch, nd) # cs) c d fu =
     sweepLoop cs (collectAllDescendentWords nd
                     (if word nd \<noteq> [] then recordScore c (word nd) d fu else c) d fu) d fu"
  by (simp add: sweepLoop_def)

lemma sweep_unfold: "collectAllDescendentWords n c d fu = sweepLoop (children n) c d fu"
  by (simp add: sweepLoop_def collectAllDescendentWords.simps[of n])

lemma editLoop_Nil: "editLoop [] c2 w subword node d' md lim fa fu = c2"
  by (simp add: editLoop_def)

lemma editLoop_Cons:
  "editLoop ((character, next) # cs) c2 w subword node d' md lim fa fu =
     editLoop cs
       (fuzzyStep fa (collect (collect c2 (character # subword) node d' md lim False fu)
                        (character # w) node d' md lim False fu) w next (d' - 1) md lim)
       w subword node d' md lim fa fu"
  by (simp add: editLoop_def fuzzyStep_def Let_def)

lemma fuzzyLoop_Nil: "fuzzyLoop [] c2 w d md lim fa = c2"
  by (simp add: fuzzyLoop_def)

lemma fuzzyLoop_Cons:
  "fuzzyLoop ((character, next) # cs) c2 w d md lim fa =
     fuzzyLoop cs (fuzzyStep fa c2 w next d md lim) w d md lim fa"
  by (simp add: fuzzyLoop_def fuzzyStep_def)

lemma collect_Nil:
  "collect c [] node d md lim fa fu =
     (if word node \<noteq> [] then
        collectAllDescendentWords node (recordScore c (word node) d fu) d fu
      else
        budgetStep
          (exactStep (starStep (collectAllDescendentWords node c d fu) RuneError [] node d md lim fu)
             RuneError [] node d md lim fu)
          [] [] node d md lim fa fu)"
  by (subst collect.simps)
     (simp only: Let_def budgetStep_def exactStep_def starStep_def editLoop_def fuzzyLoop_def
        list.case list.distinct simp_thms if_False if_True)

lemma collect_Cons:
  "collect c (r # rest) node d md lim fa fu =
     budgetStep (exactStep (starStep c r rest node d md lim fu) r rest node d md lim fu)
       (r # rest) rest node d md lim fa fu"
  by (subst collect.simps)
     (simp only: Let_def budgetStep_def exactStep_def starStep_def editLoop_def fuzzyLoop_def
        list.case list.distinct simp_thms if_False if_True)










lemmas collect_eval =
  collect_Nil collect_Cons budgetStep_def exactStep_def starStep_def fuzzyStep_def
  editLoop_Nil editLoop_Cons fuzzyLoop_Nil fuzzyLoop_Cons
  sweep_unfold sweepLoop_Nil sweepLoop_Cons recordScore_def improves_def RuneError_def

lemmas build_eval =
  insertInternal_def InsertWithMeta_def Insert_def New_def plainText_def
  CaseInsensitive_def DefaultLevenshtein_def WithNormalisation_def WithFuzzy_def
  combiningMark_def asciiLower_def appendOriginal_def Let_def str_def
  shortStringLevenshteinLimit_def mediumStringLevenshteinLimit_def
  longStringLevenshteinLimit_def shortStringThreshold_def mediumStringThreshold_def
  longStringThreshold_def

lemmas search_eval =
  SearchAll_def Search_def maxDistance_def maxDistanceLoop_def sortSlice_def
  scoreLess_def scoreAt_def



section \<open>The mutators keep the configuration\<close>

lemma insertInternal_config:
  "normalised (insertInternal L t entry m) = normalised t"
  "caseSensitive (insertInternal L t entry m) = caseSensitive t"
  "fuzzy (insertInternal L t entry m) = fuzzy t"
  "levenshteinScheme (insertInternal L t entry m) = levenshteinScheme t"
  "levenshteinIntervals (insertInternal L t entry m) = levenshteinIntervals t"
  by (simp_all add: insertInternal_def Let_def split: option.split)

lemma Delete_config:
  "normalised (Delete L t w) = normalised t"
  "caseSensitive (Delete L t w) = caseSensitive t"
  "fuzzy (Delete L t w) = fuzzy t"
  "levenshteinScheme (Delete L t w) = levenshteinScheme t"
  "levenshteinIntervals (Delete L t w) = levenshteinIntervals t"
  by (simp_all add: Delete_def Let_def split: option.split prod.split)

lemma lookupKey_flags:
  "normalised t' = normalised t \<Longrightarrow> caseSensitive t' = caseSensitive t
     \<Longrightarrow> lookupKey L t' = lookupKey L t"
  by (rule ext) (simp add: lookupKey_def)

lemma lookupKey_Delete: "lookupKey L (Delete L t w0) = lookupKey L t"
  by (rule lookupKey_flags) (simp_all add: Delete_config)

section \<open>Dropped inserts\<close>

text \<open>
  Claim C8. \<^verbatim>\<open>Insert\<close> and \<^verbatim>\<open>InsertWithMeta\<close> leave the trie as it is on the empty
  string; and when normalisation is on and the transform of the input fails, the whole
  trie value (node structure, registry and configuration) is returned unchanged.
\<close>

theorem insert_dropped_unchanged:
  "insertInternal L t [] m = t \<and> InsertWithMeta L t [] m = t \<and> Insert L t [[]] = t \<and>
   (normalised t \<and> transform_String L entry = None \<longrightarrow>
      insertInternal L t entry m = t \<and> InsertWithMeta L t entry m = t \<and> Insert L t [entry] = t)"
  by (simp add: insertInternal_def InsertWithMeta_def Insert_def)

theorem insert_dropped_unchanged_witness:
  "normalised (New :: nat trie) \<and> transform_String rejectingText [97, 65533] = None \<and>
   InsertWithMeta rejectingText (New :: nat trie) [97, 65533] (Some 1) = New \<and>
   InsertWithMeta rejectingText (New :: nat trie) [] (Some 1) = New"
  using insert_dropped_unchanged[of rejectingText "New :: nat trie" "Some 1" "[97, 65533]"]
  by (simp add: rejectingText_def RuneError_def New_def CaseInsensitive_def
        DefaultLevenshtein_def WithNormalisation_def WithFuzzy_def)

section \<open>Installing a custom schedule\<close>

lemma search_limit_zero: "\<exists>r. Search L t q 0 = Inr r"
  by (simp add: Search_def Let_def split: option.split)

text \<open>
  Claim C9. \<^verbatim>\<open>CustomLevenshtein\<close> panics exactly when the scheme has no entry for
  length 0. With that entry the scheme is installed, and afterwards neither the distance
  budget nor an unlimited search has an error result.
\<close>

theorem CustomLevenshtein_panics_iff:
  "((\<exists>e. CustomLevenshtein scheme t = Inl e) \<longleftrightarrow> scheme 0 = None) \<and>
   (scheme 0 \<noteq> None \<longrightarrow>
      (\<exists>t'. CustomLevenshtein scheme t = Inr t' \<and> levenshteinScheme t' = scheme \<and>
            root t' = root t \<and> originalDict t' = originalDict t \<and>
            (\<forall>L q. \<exists>r. SearchAll L t' q = Inr r)))"
  by (simp add: CustomLevenshtein_def SearchAll_def search_limit_zero)

theorem CustomLevenshtein_panics_iff_witness:
  "[0 \<mapsto> 0, 4 \<mapsto> (1::uint8)] (0::uint8) \<noteq> None \<and>
   (\<exists>t'. CustomLevenshtein [0 \<mapsto> 0, 4 \<mapsto> 1] (New :: nat trie) = Inr t' \<and>
         levenshteinScheme t' = [0 \<mapsto> 0, 4 \<mapsto> 1]) \<and>
   CustomLevenshtein [4 \<mapsto> 1] (New :: nat trie) = Inl InvalidScheme"
  using CustomLevenshtein_panics_iff[of "[0 \<mapsto> 0, 4 \<mapsto> 1]" "New :: nat trie"]
    CustomLevenshtein_panics_iff[of "[4 \<mapsto> 1]" "New :: nat trie"]
  by (auto simp: CustomLevenshtein_def)

section \<open>The empty query\<close>

text \<open>
  Claim C4, as the code has it. The guard \<^verbatim>\<open>len(search) == 0\<close> of \<^verbatim>\<open>Search\<close> and of
  \<^verbatim>\<open>SearchAllMeta\<close> reads the query as given, before it is normalised and folded: on
  the empty string all three search functions return the empty sequence, for every
  configuration and every trie.
\<close>

theorem empty_query_empty_result:
  "Search L t [] limit = Inr [] \<and> SearchAll L t [] = Inr [] \<and> SearchAllMeta L t [] = []"
  by (simp add: Search_def SearchAll_def SearchAllMeta_def)

text \<open>
  The claim as stated fails: the query U+0301 (a lone combining acute accent) is not
  empty, its canonical form is, and the default trie holding \<^verbatim>\<open>a\<close> returns that word.
\<close>

theorem empty_canonical_query_counterexample:
  "[769] \<noteq> ([] :: gostring) \<and>
   map_option (ToLower plainText) (transform_String plainText [769]) = Some [] \<and>
   SearchAll plainText (Insert plainText (New :: unit trie) [str ''a'']) [769] = Inr [str ''a'']"
  by (simp add: build_eval search_eval collect_eval)

section \<open>Limited search\<close>

text \<open>
  Claim C3 at a failing input. Under the default configuration the dictionary
  \<^verbatim>\<open>Monday\<close> and the query \<^verbatim>\<open>mon\<close> with limit 1 give one canonical hit; the branch
  \<^verbatim>\<open>return hits[:limit]\<close> returns it as it is, the lower-case key \<^verbatim>\<open>monday\<close>, and the
  expansion to the original \<^verbatim>\<open>Monday\<close> that the unlimited search performs is skipped.
\<close>

theorem limited_search_returns_canonical:
  "Search plainText (Insert plainText (New :: unit trie) [str ''Monday'']) (str ''mon'') 1
     = Inr [str ''monday''] \<and>
   SearchAll plainText (Insert plainText (New :: unit trie) [str ''Monday'']) (str ''mon'')
     = Inr [str ''Monday'']"
  by (simp add: build_eval search_eval collect_eval)

section \<open>Insert, then find\<close>

text \<open>
  Where the node at the end of the key is missing, or stores the key already, an insert
  that takes effect is found with its metadata. After \<^verbatim>\<open>Delete\<close> a word with a
  non-empty key is not found, in every trie.
\<close>

lemma findWalk_insertWalk:
  assumes "findWalk n ks = None \<or> (\<exists>nd. findWalk n ks = Some nd \<and> word nd = entry)"
  shows "\<exists>nd. findWalk (insertWalk n ks entry m) ks = Some nd \<and> word nd = entry \<and> meta nd = m"
  using assms
proof (induction ks arbitrary: n)
  case Nil
  then show ?case by simp
next
  case (Cons c cs)
  show ?case
  proof (cases "map_of (children n) c")
    case None
    let ?fresh = "if cs = [] then Node [] entry m else Node [] [] None :: 'a node"
    have "findWalk ?fresh cs = None \<or> (\<exists>nd. findWalk ?fresh cs = Some nd \<and> word nd = entry)"
      by (cases cs) auto
    from Cons.IH[OF this] None show ?thesis by (simp add: Let_def update_conv')
  next
    case (Some child)
    with Cons.prems
    have "findWalk child cs = None \<or> (\<exists>nd. findWalk child cs = Some nd \<and> word nd = entry)"
      by simp
    from Cons.IH[OF this] Some show ?thesis by (simp add: update_conv')
  qed
qed

lemma findWalk_deleteWalk:
  "deleteWalk n ks = Some (n', b) \<Longrightarrow>
   findWalk n' ks = None \<or> (\<exists>nd. findWalk n' ks = Some nd \<and> word nd = [])"
proof (induction ks arbitrary: n n' b)
  case Nil
  then show ?case by auto
next
  case (Cons r rs)
  from Cons.prems obtain nxt child pr where
    nxt: "map_of (children n) r = Some nxt" and dw: "deleteWalk nxt rs = Some (child, pr)"
    by (auto split: option.splits)
  show ?case
  proof (cases "pr \<and> children child = [] \<and> word child = []")
    case True
    with Cons.prems nxt dw have "n' = Node (AList.delete r (children n)) (word n) (meta n)"
      by simp
    then show ?thesis by (simp add: delete_conv')
  next
    case False
    with Cons.prems nxt dw have "n' = Node (AList.update r child (children n)) (word n) (meta n)"
      by auto
    with Cons.IH[OF dw] show ?thesis by (simp add: update_conv')
  qed
qed

lemma deleteWalk_None_findWalk: "deleteWalk n ks = None \<Longrightarrow> findWalk n ks = None"
  by (induction ks arbitrary: n) (auto split: option.splits prod.splits if_splits)

lemma delete_then_find:
  assumes "lookupKey L t w \<noteq> []"
  shows "FindMeta L (Delete L t w) w = (None, False)"
proof (cases "deleteWalk (root t) (lookupKey L t w)")
  case None
  then have "root (Delete L t w) = root t" by (simp add: Delete_def Let_def)
  with deleteWalk_None_findWalk[OF None] show ?thesis
    by (simp add: FindMeta_def lookupKey_Delete)
next
  case (Some res)
  obtain r pr where res: "res = (r, pr)" by (cases res)
  with Some have "root (Delete L t w) = r" by (simp add: Delete_def Let_def)
  with findWalk_deleteWalk[OF Some[unfolded res]] assms show ?thesis
    by (auto simp: FindMeta_def lookupKey_Delete)
qed

lemma insert_then_find:
  assumes "w \<noteq> []"
    and "normalised t \<longrightarrow> transform_String L w \<noteq> None"
    and "findWalk (root t) (lookupKey L t w) = None \<or>
         (\<exists>nd. findWalk (root t) (lookupKey L t w) = Some nd \<and> word nd = lookupKey L t w)"
  shows "FindMeta L (InsertWithMeta L t w m) w = (m, True)"
proof -
  let ?k = "lookupKey L t w"
  have lk: "lookupKey L (InsertWithMeta L t w m) = lookupKey L t"
    unfolding InsertWithMeta_def by (rule lookupKey_flags) (simp_all add: insertInternal_config)
  from assms(1,2) have "root (InsertWithMeta L t w m) = insertWalk (root t) ?k ?k m"
    by (auto simp: InsertWithMeta_def insertInternal_def lookupKey_def Let_def split: option.splits)
  with findWalk_insertWalk[OF assms(3), of m] show ?thesis
    by (auto simp: FindMeta_def lk)
qed

text \<open>
  Claim C1 at a failing input. Under the default configuration, after \<^verbatim>\<open>abc\<close> has been
  inserted, \<^verbatim>\<open>InsertWithMeta("ab", 7)\<close> finds the node of \<^verbatim>\<open>ab\<close> in place and leaves its
  word empty, so \<^verbatim>\<open>FindMeta("ab")\<close> reports that nothing is found. On the empty trie the
  same insert is found.
\<close>

theorem insert_prefix_not_found:
  "FindMeta plainText
     (InsertWithMeta plainText (Insert plainText (New :: nat trie) [str ''abc'']) (str ''ab'') (Some 7))
     (str ''ab'') = (None, False) \<and>
   FindMeta plainText (InsertWithMeta plainText (New :: nat trie) (str ''ab'') (Some 7))
     (str ''ab'') = (Some 7, True)"
  by (simp add: build_eval FindMeta_def lookupKey_def)

section \<open>Termination of the traversal\<close>

text \<open>
  Claim C10. Every argument tuple lies in the domain of the recursion of \<^verbatim>\<open>collect\<close>,
  of \<^verbatim>\<open>collectMeta\<close> and of the two descendant sweeps: for every node (a finite tree),
  word, distance, budget and pair of flags, the tree of recursive calls is well-founded,
  so each of the four functions returns.
\<close>

theorem traversal_terminates:
  fixes node :: "'m node"
  shows "collect_dom (collection, w, node, distance, md, limit, fuzzyAllowed, fuzzyUsed) \<and>
         collectMeta_dom (mcollection, w, node, distance, md, limit, fuzzyAllowed, fuzzyUsed) \<and>
         collectAllDescendentWords_dom (node, collection, distance, fuzzyUsed) \<and>
         collectAllDescendentWordsMeta_dom (node, mcollection, distance, fuzzyUsed)"
  using collect_total collectMeta_total collectAllDescendentWords_total
    collectAllDescendentWordsMeta_total
  by blast

section \<open>Ranking\<close>

lemma set_insertBy: "set (insertBy lt x ys) = insert x (set ys)"
  by (induction ys) auto

lemma set_sortSlice: "set (sortSlice lt xs) = set xs"
  by (induction xs) (simp_all add: sortSlice_def set_insertBy)

text \<open>
  The comparator of the sort is the lexicographic order on edit distance, fuzzy flag
  (unset first) and word, and \<open>sortSlice\<close> returns its input ranked by it.
\<close>

lemma scoreLess_iff:
  "scoreLess si wi sj wj \<longleftrightarrow>
     levenshtein si < levenshtein sj \<or>
     (levenshtein si = levenshtein sj \<and>
        ((\<not> score.fuzzy si \<and> score.fuzzy sj) \<or> (score.fuzzy si = score.fuzzy sj \<and> wi < wj)))"
  by (auto simp: scoreLess_def)

lemma sorted_insertBy:
  assumes asym: "\<And>a b. lt a b \<Longrightarrow> \<not> lt b a"
    and trans: "\<And>a b c. \<not> lt b a \<Longrightarrow> \<not> lt c b \<Longrightarrow> \<not> lt c a"
  shows "sorted_wrt (\<lambda>a b. \<not> lt b a) ys \<Longrightarrow> sorted_wrt (\<lambda>a b. \<not> lt b a) (insertBy lt x ys)"
proof (induction ys)
  case Nil
  then show ?case by simp
next
  case (Cons y ys)
  show ?case
  proof (cases "lt y x")
    case True
    with Cons asym[OF True] show ?thesis by (auto simp: set_insertBy)
  next
    case False
    with Cons.prems trans[OF False] show ?thesis by auto
  qed
qed

lemma sorted_sortSlice:
  assumes "\<And>a b. lt a b \<Longrightarrow> \<not> lt b a"
    and "\<And>a b c. \<not> lt b a \<Longrightarrow> \<not> lt c b \<Longrightarrow> \<not> lt c a"
  shows "sorted_wrt (\<lambda>a b. \<not> lt b a) (sortSlice lt xs)"
  by (induction xs) (simp_all add: sortSlice_def sorted_insertBy[of lt, OF assms])

lemma hits_ranked:
  "sorted_wrt (\<lambda>a b. \<not> scoreLess (scoreAt c b) b (scoreAt c a) a)
     (sortSlice (\<lambda>a b. scoreLess (scoreAt c a) a (scoreAt c b) b) xs)"
  by (rule sorted_sortSlice) (auto simp: scoreLess_iff)

section \<open>The example dictionary\<close>


section \<open>The distance budget\<close>

lemma descending_insertBy:
  fixes x :: "'a::linorder"
  shows "sorted_wrt (\<ge>) ys \<Longrightarrow> sorted_wrt (\<ge>) (insertBy (\<lambda>a b. a > b) x ys)"
  by (induction ys) (auto simp: set_insertBy)

lemma descending_sortSlice:
  fixes xs :: "'a::linorder list"
  shows "sorted_wrt (\<ge>) (sortSlice (\<lambda>a b. a > b) xs)"
  by (induction xs) (simp_all add: sortSlice_def descending_insertBy)

lemma all_uint8: "set (map of_nat [0..<256]) = (UNIV :: uint8 set)"
proof -
  have "w \<in> set (map of_nat [0..<256])" for w :: uint8
  proof -
    have "unat w < 256" using unsigned_less[of w, where ?'a = nat] by simp
    moreover have "of_nat (unat w) = w" by simp
    ultimately show ?thesis by (metis atLeast0LessThan image_eqI lessThan_iff set_map set_upt)
  qed
  then show ?thesis by blast
qed

lemma set_schemeKeys: "set (schemeKeys scheme) = dom scheme"
  unfolding schemeKeys_def set_filter all_uint8 by auto

lemma find_descending:
  fixes xs :: "uint8 list"
  assumes "sorted_wrt (\<ge>) xs" and "find (\<lambda>limit. n \<ge> unat limit) xs = Some k"
  shows "k \<in> set xs \<and> unat k \<le> n \<and> (\<forall>k' \<in> set xs. unat k' \<le> n \<longrightarrow> k' \<le> k)"
  using assms
proof (induction xs)
  case Nil
  then show ?case by simp
next
  case (Cons x xs)
  show ?case
  proof (cases "unat x \<le> n")
    case True
    with Cons.prems show ?thesis by auto
  next
    case False
    with Cons show ?thesis by auto
  qed
qed

lemma find_floor:
  fixes xs :: "uint8 list"
  assumes "0 \<in> set xs"
  shows "find (\<lambda>limit. n \<ge> unat limit) xs \<noteq> None"
  using assms by (auto simp: find_None_iff)

lemma custom_budget:
  assumes "CustomLevenshtein scheme t = Inr t'"
  shows "\<exists>k. levenshteinScheme t' k = Some (maxDistance t' q) \<and> unat k \<le> length q \<and>
            (\<forall>k'. levenshteinScheme t' k' \<noteq> None \<and> unat k' \<le> length q \<longrightarrow> k' \<le> k)"
proof -
  from assms have zero: "scheme 0 \<noteq> None"
    and sch: "levenshteinScheme t' = scheme"
    and iv: "levenshteinIntervals t' = sortSlice (\<lambda>a b. a > b) (schemeKeys scheme)"
    by (auto simp: CustomLevenshtein_def split: if_splits)
  let ?iv = "sortSlice (\<lambda>a b. a > b) (schemeKeys scheme)"
  have keys: "set ?iv = dom scheme" by (simp add: set_sortSlice set_schemeKeys)
  with zero have "0 \<in> set ?iv" by auto
  then obtain k where k: "find (\<lambda>limit. length q \<ge> unat limit) ?iv = Some k"
    using find_floor[of ?iv "length q"] by auto
  from find_descending[OF descending_sortSlice k] keys
  have kin: "k \<in> dom scheme" and kle: "unat k \<le> length q"
    and kmax: "\<forall>k' \<in> dom scheme. unat k' \<le> length q \<longrightarrow> k' \<le> k" by auto
  from kin obtain v where v: "scheme k = Some v" by auto
  have "maxDistance t' q = v"
    by (simp add: maxDistance_def maxDistanceLoop_def sch iv k v)
  with v sch kle kmax show ?thesis by (intro exI[of _ k]) auto
qed

lemma default_budget:
  "maxDistance (DefaultLevenshtein t) q = (if length q < 3 then 0 else if length q < 5 then 1 else 2)"
  by (simp add: maxDistance_def maxDistanceLoop_def DefaultLevenshtein_def
        shortStringLevenshteinLimit_def mediumStringLevenshteinLimit_def
        longStringLevenshteinLimit_def shortStringThreshold_def mediumStringThreshold_def
        longStringThreshold_def)

lemma default_scheme_dom:
  "levenshteinScheme (DefaultLevenshtein t) k \<noteq> None \<longleftrightarrow> k = 0 \<or> k = 3 \<or> k = 5"
  by (simp add: DefaultLevenshtein_def
        shortStringLevenshteinLimit_def mediumStringLevenshteinLimit_def
        longStringLevenshteinLimit_def shortStringThreshold_def mediumStringThreshold_def
        longStringThreshold_def)

lemma default_scheme_keys:
  "levenshteinScheme (DefaultLevenshtein t) k = Some y \<Longrightarrow> k = 0 \<or> k = 3 \<or> k = 5"
  using default_scheme_dom[of t k] by simp

lemma default_scheme_values:
  "levenshteinScheme (DefaultLevenshtein t) 0 = Some 0"
  "levenshteinScheme (DefaultLevenshtein t) 3 = Some 1"
  "levenshteinScheme (DefaultLevenshtein t) 5 = Some 2"
  by (simp_all add: DefaultLevenshtein_def
        shortStringLevenshteinLimit_def mediumStringLevenshteinLimit_def
        longStringLevenshteinLimit_def shortStringThreshold_def mediumStringThreshold_def
        longStringThreshold_def)

lemma default_largest:
  "\<exists>k. levenshteinScheme (DefaultLevenshtein t) k = Some (maxDistance (DefaultLevenshtein t) q) \<and>
       unat k \<le> length q \<and>
       (\<forall>k'. levenshteinScheme (DefaultLevenshtein t) k' \<noteq> None \<and> unat k' \<le> length q \<longrightarrow> k' \<le> k)"
proof -
  consider "length q < 3" | "3 \<le> length q" "length q < 5" | "5 \<le> length q" by linarith
  then show ?thesis
  proof cases
    case 1
    then show ?thesis
      by (intro exI[of _ 0]) (auto simp: default_budget default_scheme_values dest!: default_scheme_keys)
  next
    case 2
    then show ?thesis
      by (intro exI[of _ 3]) (auto simp: default_budget default_scheme_values dest!: default_scheme_keys)
  next
    case 3
    then show ?thesis
      by (intro exI[of _ 5]) (auto simp: default_budget default_scheme_values dest!: default_scheme_keys)
  qed
qed

lemma zero_tolerance_largest:
  "\<exists>k. levenshteinScheme (WithoutLevenshtein t) k = Some (maxDistance (WithoutLevenshtein t) q) \<and>
       unat k \<le> length q \<and>
       (\<forall>k'. levenshteinScheme (WithoutLevenshtein t) k' \<noteq> None \<and> unat k' \<le> length q \<longrightarrow> k' \<le> k)"
  by (intro exI[of _ 0]) (auto simp: WithoutLevenshtein_def maxDistance_def maxDistanceLoop_def)

text \<open>
  Claim C7. After \<^verbatim>\<open>DefaultLevenshtein\<close>, \<^verbatim>\<open>WithoutLevenshtein\<close> or a
  \<^verbatim>\<open>CustomLevenshtein\<close> that did not panic, the budget \<^verbatim>\<open>maxDistance\<close> that \<^verbatim>\<open>Search\<close>
  and \<^verbatim>\<open>SearchAllMeta\<close> hand to the traversal is the scheme's value at the largest
  threshold that does not exceed the number of code points of the query. For the default
  scheme that is 0 below three code points, 1 for three and four, and 2 from five on.
\<close>

theorem budget_is_largest_threshold:
  "((t' = DefaultLevenshtein t \<or> t' = WithoutLevenshtein t \<or> CustomLevenshtein scheme t = Inr t')
      \<longrightarrow> (\<exists>k. levenshteinScheme t' k = Some (maxDistance t' q) \<and> unat k \<le> length q \<and>
               (\<forall>k'. levenshteinScheme t' k' \<noteq> None \<and> unat k' \<le> length q \<longrightarrow> k' \<le> k))) \<and>
   maxDistance (DefaultLevenshtein t) q
     = (if length q < 3 then 0 else if length q < 5 then 1 else 2)"
  using default_largest[of t q] zero_tolerance_largest[of t q] custom_budget[of scheme t t' q]
    default_budget[of t q]
  by blast

theorem budget_is_largest_threshold_witness:
  "(\<exists>k. [0 \<mapsto> 0, 4 \<mapsto> (1::uint8)] k
           = Some (maxDistance ((New :: unit trie)\<lparr>levenshteinIntervals := [4, 0],
                                  levenshteinScheme := [0 \<mapsto> 0, 4 \<mapsto> 1]\<rparr>) (str ''abcde'')) \<and>
        unat (k::uint8) \<le> 5) \<and>
   maxDistance (DefaultLevenshtein (New :: unit trie)) (str ''ab'') = 0 \<and>
   maxDistance (DefaultLevenshtein (New :: unit trie)) (str ''abc'') = 1 \<and>
   maxDistance (DefaultLevenshtein (New :: unit trie)) (str ''abcde'') = 2"
proof -
  let ?sch = "[0 \<mapsto> 0, 4 \<mapsto> (1::uint8)] :: uint8 \<rightharpoonup> uint8"
  let ?t' = "(New :: unit trie)\<lparr>levenshteinIntervals := [4, 0], levenshteinScheme := ?sch\<rparr>"
  have keys: "schemeKeys ?sch = [0, 4]"
    unfolding schemeKeys_def by (simp add: upt_rec[of _ "numeral _"] upt_rec[of _ "Suc _"])
  have inst: "CustomLevenshtein ?sch (New :: unit trie) = Inr ?t'"
    by (simp add: CustomLevenshtein_def keys sortSlice_def)
  from budget_is_largest_threshold[of ?t' "New :: unit trie" ?sch "str ''abcde''"] inst
  have "\<exists>k. levenshteinScheme ?t' k = Some (maxDistance ?t' (str ''abcde'')) \<and>
            unat k \<le> length (str ''abcde'')"
    by blast
  moreover have "levenshteinScheme ?t' = ?sch" by simp
  moreover have "length (str ''abcde'') = 5" by (simp add: str_def)
  ultimately have a: "\<exists>k. ?sch k = Some (maxDistance ?t' (str ''abcde'')) \<and> unat k \<le> 5"
    by simp
  have b: "maxDistance (DefaultLevenshtein (New :: unit trie)) (str ''ab'') = 0"
    "maxDistance (DefaultLevenshtein (New :: unit trie)) (str ''abc'') = 1"
    "maxDistance (DefaultLevenshtein (New :: unit trie)) (str ''abcde'') = 2"
    using budget_is_largest_threshold[of _ "New :: unit trie"]
    by (simp_all add: str_def)
  from a b show ?thesis by blast
qed

section \<open>The registry invariant\<close>

subsection \<open>Association lists\<close>



lemma map_of_member: "distinct (map fst al) \<Longrightarrow> map_of al k = Some v \<longleftrightarrow> (k, v) \<in> set al"
  by simp

subsection \<open>Terminal words\<close>


















subsection \<open>Nodes of a subtree\<close>


subsection \<open>Each operation keeps the invariant\<close>














section \<open>The metadata search against the plain search\<close>

subsection \<open>Scores of the metadata collection\<close>











subsection \<open>What the metadata collection holds\<close>








subsection \<open>The two searches\<close>






















end
